theory Spec2Isabelle
  imports Main "HOL-Library.Multiset"
begin

section \<open>JavaScript values\<close>

text \<open>
  The values the session code handles: users, user ids and payloads are JavaScript
  values that the code tests for truthiness and reads properties of. Numbers are
  integers here (ids, counters); \<open>NaN\<close> does not occur. An object is its list of
  own enumerable properties in insertion order.
\<close>

datatype jsval =
    JUndefined
  | JNull
  | JBool bool
  | JNum int
  | JStr string
  | JObj "(string \<times> jsval) list"

fun truthy :: "jsval \<Rightarrow> bool" where
  "truthy JUndefined = False"
| "truthy JNull = False"
| "truthy (JBool b) = b"
| "truthy (JNum n) = (n \<noteq> 0)"
| "truthy (JStr s) = (s \<noteq> [])"
| "truthy (JObj kvs) = True"

text \<open>
  Reading a property. The code reads \<open>.id\<close> of a value only after testing the value
  to be truthy, where a property read never throws: a missing property, and any
  property of a truthy primitive that the code reads, is \<open>undefined\<close>.
\<close>

fun get_prop :: "jsval \<Rightarrow> string \<Rightarrow> jsval" where
  "get_prop (JObj kvs) k = (case map_of kvs k of Some v \<Rightarrow> v | None \<Rightarrow> JUndefined)"
| "get_prop v k = JUndefined"

text \<open>
  A configuration entry or a header that holds a string, or is absent. The empty
  string is falsy, as \<open>undefined\<close> is.
\<close>

definition str_truthy :: "string option \<Rightarrow> bool" where
  "str_truthy v = (case v of None \<Rightarrow> False | Some s \<Rightarrow> s \<noteq> [])"

definition is_space :: "char \<Rightarrow> bool" where
  "is_space c = (c \<in> set [CHR '' '', CHR 0x09, CHR 0x0A, CHR 0x0B, CHR 0x0C, CHR 0x0D])"

text \<open>\<open>String.prototype.trim\<close> on the ASCII white space and line terminators.\<close>

definition trim :: "string \<Rightarrow> string" where
  "trim s = rev (dropWhile is_space (rev (dropWhile is_space s)))"

section \<open>The session bridge (src/services/express-session.js)\<close>

datatype error =
    NoModel                       \<comment> \<open>\<open>new Error('No model for the bridge')\<close>\<close>
  | Failure string                \<comment> \<open>an error raised by a collaborator (repository, token codec, ...)\<close>
  | RegisterNotPromise string     \<comment> \<open>\<open>Middleware '<name>' register() did not return a Promise\<close>\<close>
  | UnregisterNotPromise string   \<comment> \<open>\<open>Middleware '<name>' unregister() did not return a Promise\<close>\<close>
  | NotInitialized string         \<comment> \<open>\<open>Server <name> was not properly initialized\<close>\<close>

record session_info =
  ip :: "string option"
  forwarded_for :: "string option"
  user_agent :: "string option"
  geoip :: jsval

record session =
  token :: string
  payload :: jsval
  info :: "session_info option"
  user :: jsval
  userId :: jsval

text \<open>
  The Express request, as far as the session code reads it. \<open>cookies\<close> is absent when
  no cookie parser ran; \<open>req_ip\<close> is \<open>req.ip\<close>.
\<close>

record request =
  headers :: "string \<rightharpoonup> string"
  req_ip :: "string option"
  cookies :: "(string \<rightharpoonup> string) option"

text \<open>
  The repositories are collaborators behind an interface: a call returns rows or fails.
  \<open>deleteExpired\<close> is an optional method.
\<close>

record session_repo =
  getModel :: session
  findByToken :: "string \<Rightarrow> error + session list"
  repo_save :: "session \<Rightarrow> error + unit"
  repo_delete :: "session \<Rightarrow> error + unit"
  deleteExpired :: "(int \<Rightarrow> error + unit) option"

record user_repo =
  user_find :: "jsval \<Rightarrow> error + jsval list"

datatype storage_op =
    OpFindByToken string
  | OpUserFind jsval
  | OpSave session
  | OpDelete session
  | OpDeleteExpired int

record rand_opts =
  lower :: bool
  upper :: bool
  digits :: bool
  special :: bool

text \<open>
  What the bridge is constructed with: the container (\<open>app.get\<close>), the \<open>util\<close>
  service and the geo-IP library.
\<close>

record collaborators =
  app_get_model :: "string \<Rightarrow> session"
  app_get_session_repo :: "string \<Rightarrow> session_repo"
  app_get_user_repo :: "string \<Rightarrow> user_repo"
  getRandomString :: "nat \<Rightarrow> rand_opts \<Rightarrow> string"
  geoip_lookup :: "string \<Rightarrow> jsval"

text \<open>
  The configuration the bridge reads: \<open>config.project\<close> and the keys of
  \<open>servers.<server>.session\<close>.
\<close>

record bridge_config =
  project :: string
  cfg_model :: "string option"
  session_repository :: "string option"
  user_repository :: "string option"
  ip_header :: "string option"
  expire_timeout :: "int option"

record bridge =
  server :: string
  config :: bridge_config
  collab :: collaborators
  tokenLength :: nat
  sessionRepo :: "session_repo option"
  userRepo :: "user_repo option"

text \<open>The constructor: the repositories are resolved only when the configuration names them.\<close>

definition ExpressSession :: "collaborators \<Rightarrow> bridge_config \<Rightarrow> string \<Rightarrow> bridge" where
  "ExpressSession c cfg srv =
     \<lparr> server = srv, config = cfg, collab = c, tokenLength = 64,
       sessionRepo = (if str_truthy (session_repository cfg)
                      then Some (app_get_session_repo c (the (session_repository cfg))) else None),
       userRepo = (if str_truthy (user_repository cfg)
                   then Some (app_get_user_repo c (the (user_repository cfg))) else None) \<rparr>"

definition expirationTimeout :: "bridge \<Rightarrow> int" where
  "expirationTimeout b = (case expire_timeout (config b) of None \<Rightarrow> 0 | Some n \<Rightarrow> n)"

definition tokenVar :: "bridge \<Rightarrow> string" where
  "tokenVar b = ''sid_'' @ server b @ ''_'' @ project (config b)"

text \<open>
  \<open>req.headers[h] && req.headers[h].trim()\<close>, read for its truthiness: a missing,
  empty or all-blank header gives \<open>None\<close>.
\<close>

definition header_trim :: "request \<Rightarrow> string \<Rightarrow> string option" where
  "header_trim req h =
     (case headers req h of
        None \<Rightarrow> None
      | Some v \<Rightarrow> if v = [] then None else if trim v = [] then None else Some (trim v))"

definition getInfo :: "bridge \<Rightarrow> request option \<Rightarrow> session_info" where
  "getInfo b req =
     (let ip0 = (case req of
                   None \<Rightarrow> None
                 | Some r \<Rightarrow>
                     (let ip1 = (if str_truthy (ip_header (config b))
                                 then header_trim r (the (ip_header (config b))) else None)
                      in if ip1 = None then (if str_truthy (req_ip r) then req_ip r else None)
                         else ip1))
      in \<lparr> ip = ip0,
           forwarded_for = (case req of None \<Rightarrow> None | Some r \<Rightarrow> header_trim r ''x-forwarded-for''),
           user_agent = (case req of None \<Rightarrow> None | Some r \<Rightarrow> header_trim r ''user-agent''),
           geoip = (case ip0 of
                      None \<Rightarrow> JNull
                    | Some a \<Rightarrow> if truthy (geoip_lookup (collab b) a)
                               then geoip_lookup (collab b) a else JNull) \<rparr>)"

definition alphanumeric :: rand_opts where
  "alphanumeric = \<lparr> lower = True, upper = True, digits = True, special = False \<rparr>"

text \<open>The assignments \<open>create\<close> makes to the model it obtained.\<close>

definition fill_session :: "bridge \<Rightarrow> session \<Rightarrow> jsval \<Rightarrow> request option \<Rightarrow> session" where
  "fill_session b s usr req =
     s\<lparr> token := getRandomString (collab b) (tokenLength b) alphanumeric,
        payload := JObj [],
        info := Some (getInfo b req),
        user := usr,
        userId := (if truthy usr then get_prop usr ''id'' else userId s) \<rparr>"

definition create :: "bridge \<Rightarrow> jsval \<Rightarrow> request option \<Rightarrow> error + session" where
  "create b usr req =
     (if str_truthy (cfg_model (config b))
      then Inr (fill_session b (app_get_model (collab b) (the (cfg_model (config b)))) usr req)
      else case sessionRepo b of
             Some r \<Rightarrow> Inr (fill_session b (getModel r) usr req)
           | None \<Rightarrow> Inl NoModel)"

text \<open>\<open>(users.length && users[0]) || null\<close>\<close>

definition first_or_null :: "jsval list \<Rightarrow> jsval" where
  "first_or_null users = (case users of [] \<Rightarrow> JNull | u # _ \<Rightarrow> if truthy u then u else JNull)"

definition refresh_info :: "bridge \<Rightarrow> request option \<Rightarrow> session \<Rightarrow> session" where
  "refresh_info b req s = (case req of None \<Rightarrow> s | Some r \<Rightarrow> s\<lparr> info := Some (getInfo b (Some r)) \<rparr>)"

text \<open>
  \<open>find\<close>, named \<open>find_session\<close> here. It returns its result and the storage
  operations it made. A result \<open>Inr None\<close> is \<open>null\<close>; \<open>Inl e\<close> is the rejection
  with \<open>e\<close>.
\<close>

definition find_session :: "bridge \<Rightarrow> string \<Rightarrow> request option \<Rightarrow> (error + session option) \<times> storage_op list" where
  "find_session b tok req =
     (case sessionRepo b of
        None \<Rightarrow> (Inr None, [])
      | Some r \<Rightarrow>
          (case findByToken r tok of
             Inl e \<Rightarrow> (Inl e, [OpFindByToken tok])
           | Inr [] \<Rightarrow> (Inr None, [OpFindByToken tok])
           | Inr (s # _) \<Rightarrow>
               (if truthy (userId s) \<and> userRepo b \<noteq> None
                then (case user_find (the (userRepo b)) (userId s) of
                        Inl e \<Rightarrow> (Inl e, [OpFindByToken tok, OpUserFind (userId s)])
                      | Inr users \<Rightarrow>
                          (Inr (Some (refresh_info b req (s\<lparr> user := first_or_null users \<rparr>))),
                           [OpFindByToken tok, OpUserFind (userId s)]))
                else (Inr (Some (refresh_info b req s)), [OpFindByToken tok]))))"

text \<open>
  \<open>save\<close> mutates the session it is given: the result carries the session as it is
  after the call, whether or not the repository call succeeded.
\<close>

definition save :: "bridge \<Rightarrow> session \<Rightarrow> request option \<Rightarrow> (error + unit) \<times> session \<times> storage_op list" where
  "save b s req =
     (let s1 = refresh_info b req s;
          s2 = s1\<lparr> userId := (if truthy (user s1) then get_prop (user s1) ''id'' else JNull) \<rparr>
      in case sessionRepo b of
           None \<Rightarrow> (Inr (), s2, [])
         | Some r \<Rightarrow> (repo_save r s2, s2, [OpSave s2]))"

definition destroy :: "bridge \<Rightarrow> session \<Rightarrow> (error + unit) \<times> storage_op list" where
  "destroy b s =
     (case sessionRepo b of
        None \<Rightarrow> (Inr (), [])
      | Some r \<Rightarrow> (repo_delete r s, [OpDelete s]))"

definition expire :: "bridge \<Rightarrow> (error + unit) \<times> storage_op list" where
  "expire b =
     (case sessionRepo b of
        None \<Rightarrow> (Inr (), [])
      | Some r \<Rightarrow>
          (case deleteExpired r of
             None \<Rightarrow> (Inr (), [])
           | Some del \<Rightarrow> (del (expirationTimeout b), [OpDeleteExpired (expirationTimeout b)])))"

section \<open>The session middleware (src/middleware/session.js)\<close>

text \<open>
  The middleware talks to the application's session service (\<open>this._session\<close>), which
  is a collaborator: each call resolves to a value or rejects. \<open>decodeJwt\<close> resolves to
  an object whose \<open>session\<close> field may be missing; \<open>create\<close> may resolve to nothing.
  \<open>update\<close> works on the session object it is handed, so its result comes with the
  session as it is after the call.
\<close>

record session_service =
  decodeJwt :: "string \<Rightarrow> string \<Rightarrow> request \<Rightarrow> error + session option"
  svc_create :: "string \<Rightarrow> jsval \<Rightarrow> request \<Rightarrow> error + session option"
  update :: "string \<Rightarrow> session \<Rightarrow> request \<Rightarrow> (error + jsval) \<times> session"
  svc_isValid :: "string \<Rightarrow> session \<Rightarrow> bool"
  encodeJwt :: "string \<Rightarrow> session \<Rightarrow> error + string"

text \<open>
  Modelled from the spec: what a non-empty payload is, for \<open>isValid\<close> below. A payload
  is a key/value map (spec, section 3); it is non-empty when it is an object with a
  property.
\<close>

fun payload_nonempty :: "jsval \<Rightarrow> bool" where
  "payload_nonempty (JObj kvs) = (kvs \<noteq> [])"
| "payload_nonempty v = False"

text \<open>
  Modelled from the spec: \<open>isValid\<close> of the session service, whose code is not under
  src/ (the middleware only calls it). The spec, section 4.1: true iff the session
  carries a non-empty payload or an attached user.
\<close>

definition isValid :: "session \<Rightarrow> bool" where
  "isValid s = (payload_nonempty (payload s) \<or> truthy (user s))"

text \<open>Assignment to a property: an existing key keeps its place, a new one goes last.\<close>

fun set_prop :: "(string \<times> jsval) list \<Rightarrow> string \<Rightarrow> jsval \<Rightarrow> (string \<times> jsval) list" where
  "set_prop [] k v = [(k, v)]"
| "set_prop ((k', v') # kvs) k v = (if k' = k then (k, v) # kvs else (k', v') # set_prop kvs k v)"

fun show_nat :: "nat \<Rightarrow> string" where
  "show_nat n = (if n < 10 then [char_of (48 + n)] else show_nat (n div 10) @ [char_of (48 + n mod 10)])"

text \<open>
  \<open>Object.assign(target, source)\<close>: the own enumerable properties of the source are
  assigned in order. A string source has its characters under their indices; the other
  primitives, \<open>null\<close> and \<open>undefined\<close> have none.
\<close>

fun object_assign :: "(string \<times> jsval) list \<Rightarrow> jsval \<Rightarrow> (string \<times> jsval) list" where
  "object_assign t (JObj kvs) = foldl (\<lambda>acc (k, v). set_prop acc k v) t kvs"
| "object_assign t (JStr s) =
     foldl (\<lambda>acc (k, v). set_prop acc k v) t (zip (map show_nat [0..<length s]) (map (\<lambda>c. JStr [c]) s))"
| "object_assign t v = t"

text \<open>\<open>req.cookies && bridge.tokenVar && req.cookies[bridge.tokenVar]\<close>\<close>

definition cookie_token :: "bridge \<Rightarrow> request \<Rightarrow> string option" where
  "cookie_token b req =
     (case cookies req of
        None \<Rightarrow> None
      | Some cs \<Rightarrow> if tokenVar b = [] then None else cs (tokenVar b))"

text \<open>
  The calls at the head of the \<open>try\<close> block, the same in both variants: decode the
  cookie's token when there is one, create an anonymous session when that gave none.
\<close>

definition resolve_session :: "session_service \<Rightarrow> bridge \<Rightarrow> string \<Rightarrow> request \<Rightarrow> error + session option" where
  "resolve_session svc b nm req =
     (case (if str_truthy (cookie_token b req)
            then decodeJwt svc nm (the (cookie_token b req)) req else Inr None) of
        Inl e \<Rightarrow> Inl e
      | Inr (Some s) \<Rightarrow> Inr (Some s)
      | Inr None \<Rightarrow> svc_create svc nm JNull req)"

text \<open>
  What the request handler leaves behind when it calls \<open>next()\<close>: the closure's
  \<open>session\<close> variable, the fields on \<open>req\<close> and \<open>res.locals\<close>, and what it logged.
\<close>

record handler_result =
  session_var :: "session option"
  req_session :: jsval
  req_user :: jsval
  locals_session :: jsval
  locals_user :: jsval
  logged :: "error list"
  next_called :: bool

definition or_null :: "jsval \<Rightarrow> jsval" where
  "or_null v = (if truthy v then v else JNull)"

text \<open>Variant 1: \<open>req.session\<close> starts as \<open>null\<close> and becomes the session's payload.\<close>

definition handler_v1 :: "session_service \<Rightarrow> bridge \<Rightarrow> string \<Rightarrow> request \<Rightarrow> handler_result" where
  "handler_v1 svc b nm req =
     (case resolve_session svc b nm req of
        Inl e \<Rightarrow>
          \<lparr> session_var = None, req_session = JNull, req_user = JNull,
            locals_session = JNull, locals_user = JNull, logged = [e], next_called = True \<rparr>
      | Inr sv \<Rightarrow>
          \<lparr> session_var = sv,
            req_session = (case sv of None \<Rightarrow> JNull | Some s \<Rightarrow> or_null (payload s)),
            req_user = (case sv of None \<Rightarrow> JNull | Some s \<Rightarrow> or_null (user s)),
            locals_session = (case sv of None \<Rightarrow> JNull | Some s \<Rightarrow> or_null (payload s)),
            locals_user = (case sv of None \<Rightarrow> JNull | Some s \<Rightarrow> or_null (user s)),
            logged = [], next_called = True \<rparr>)"

text \<open>
  Variant 2: \<open>req.session\<close> starts as \<open>{}\<close> and the session's payload is copied
  into it.
\<close>

definition handler_v2 :: "session_service \<Rightarrow> bridge \<Rightarrow> string \<Rightarrow> request \<Rightarrow> handler_result" where
  "handler_v2 svc b nm req =
     (case resolve_session svc b nm req of
        Inl e \<Rightarrow>
          \<lparr> session_var = None, req_session = JObj [], req_user = JNull,
            locals_session = JObj [], locals_user = JNull, logged = [e], next_called = True \<rparr>
      | Inr sv \<Rightarrow>
          \<lparr> session_var = sv,
            req_session = (case sv of None \<Rightarrow> JObj [] | Some s \<Rightarrow> JObj (object_assign [] (payload s))),
            req_user = (case sv of None \<Rightarrow> JNull | Some s \<Rightarrow> or_null (user s)),
            locals_session = (case sv of None \<Rightarrow> JObj [] | Some s \<Rightarrow> JObj (object_assign [] (payload s))),
            locals_user = (case sv of None \<Rightarrow> JNull | Some s \<Rightarrow> or_null (user s)),
            logged = [], next_called = True \<rparr>)"

record cookie =
  c_name :: string
  c_value :: string
  maxAge :: int
  path :: string
  httpOnly :: bool

definition session_cookie :: "bridge \<Rightarrow> string \<Rightarrow> cookie" where
  "session_cookie b t =
     \<lparr> c_name = tokenVar b, c_value = t, maxAge = 365 * 24 * 60 * 60 * 1000,
       path = ''/'', httpOnly = False \<rparr>"

text \<open>
  What one call of the replaced \<open>res.end\<close> does: the cookies it sets, the errors it
  logs, what it prints, the argument lists it passes to the original \<open>res.end\<close>, and the
  session object afterwards.
\<close>

record hook_result =
  cookies_set :: "cookie list"
  hook_logged :: "error list"
  console :: "string list"
  origEnd_calls :: "jsval list list"
  session_after :: "session option"

text \<open>
  Variant 1. The arguments are the closure's \<open>session\<close>, the value of \<open>req.user\<close> when
  the response ends, the request and the arguments of \<open>res.end\<close>.
\<close>

definition finalize_v1 ::
  "session_service \<Rightarrow> bridge \<Rightarrow> string \<Rightarrow> session option \<Rightarrow> jsval \<Rightarrow> request \<Rightarrow> jsval list \<Rightarrow> hook_result" where
  "finalize_v1 svc b nm sv cur_user req args =
     (case sv of
        None \<Rightarrow>
          \<lparr> cookies_set = [], hook_logged = [], console = [], origEnd_calls = [args],
            session_after = None \<rparr>
      | Some s \<Rightarrow>
          (let s1 = s\<lparr> user := cur_user \<rparr>;
               r = fst (update svc nm s1 req);
               s2 = snd (update svc nm s1 req)
           in case r of
                Inl e \<Rightarrow>
                  \<lparr> cookies_set = [], hook_logged = [e], console = [], origEnd_calls = [args],
                    session_after = Some s2 \<rparr>
              | Inr v \<Rightarrow>
                  if svc_isValid svc nm s2 \<and> tokenVar b \<noteq> []
                  then (case encodeJwt svc nm s2 of
                          Inl e \<Rightarrow>
                            \<lparr> cookies_set = [], hook_logged = [e], console = [],
                              origEnd_calls = [args], session_after = Some s2 \<rparr>
                        | Inr t \<Rightarrow>
                            \<lparr> cookies_set = [session_cookie b t], hook_logged = [], console = [t],
                              origEnd_calls = [args], session_after = Some s2 \<rparr>)
                  else \<lparr> cookies_set = [], hook_logged = [], console = [], origEnd_calls = [args],
                         session_after = Some s2 \<rparr>))"

text \<open>
  Variant 2 also takes the value of \<open>req.session\<close> when the response ends, stores it as
  the payload, and reads the validity off what \<open>update\<close> resolves to.
\<close>

definition finalize_v2 ::
  "session_service \<Rightarrow> bridge \<Rightarrow> string \<Rightarrow> session option \<Rightarrow> jsval \<Rightarrow> jsval \<Rightarrow> request \<Rightarrow> jsval list \<Rightarrow> hook_result" where
  "finalize_v2 svc b nm sv cur_session cur_user req args =
     (case sv of
        None \<Rightarrow>
          \<lparr> cookies_set = [], hook_logged = [], console = [], origEnd_calls = [args],
            session_after = None \<rparr>
      | Some s \<Rightarrow>
          (let s1 = s\<lparr> payload := cur_session, user := cur_user \<rparr>;
               r = fst (update svc nm s1 req);
               s2 = snd (update svc nm s1 req)
           in case r of
                Inl e \<Rightarrow>
                  \<lparr> cookies_set = [], hook_logged = [e], console = [], origEnd_calls = [args],
                    session_after = Some s2 \<rparr>
              | Inr v \<Rightarrow>
                  if truthy v \<and> tokenVar b \<noteq> []
                  then (case encodeJwt svc nm s2 of
                          Inl e \<Rightarrow>
                            \<lparr> cookies_set = [], hook_logged = [e], console = [],
                              origEnd_calls = [args], session_after = Some s2 \<rparr>
                        | Inr t \<Rightarrow>
                            \<lparr> cookies_set = [session_cookie b t], hook_logged = [], console = [],
                              origEnd_calls = [args], session_after = Some s2 \<rparr>)
                  else \<lparr> cookies_set = [], hook_logged = [], console = [], origEnd_calls = [args],
                         session_after = Some s2 \<rparr>))"

section \<open>The routes middleware (module express/middleware/routes)\<close>

text \<open>
  \<open>Array.prototype.sort\<close> with a comparison function, as the language standard
  defines it since ECMAScript 2019: the result is ordered by the comparison and equal
  elements keep their order. For a consistent comparison there is one such result;
  it is computed here by inserting the elements one by one, each after the elements it
  does not precede.
\<close>

fun insert_sorted :: "('a \<Rightarrow> 'a \<Rightarrow> int) \<Rightarrow> 'a \<Rightarrow> 'a list \<Rightarrow> 'a list" where
  "insert_sorted cmp x [] = [x]"
| "insert_sorted cmp x (y # ys) = (if cmp x y < 0 then x # y # ys else y # insert_sorted cmp x ys)"

definition js_sort :: "('a \<Rightarrow> 'a \<Rightarrow> int) \<Rightarrow> 'a list \<Rightarrow> 'a list" where
  "js_sort cmp xs = foldl (\<lambda>acc x. insert_sorted cmp x acc) [] xs"

text \<open>
  A router as a module contributes it: \<open>{ priority, router }\<close>. A module may have no
  \<open>routers\<close> function.
\<close>

record 'r prioritized =
  priority :: int
  router :: 'r

record 'r app_module =
  routers :: "'r prioritized list option"

text \<open>The comparison function of the sort, and the order it yields.\<close>

abbreviation by_priority :: "'r prioritized \<Rightarrow> 'r prioritized \<Rightarrow> int" where
  "by_priority \<equiv> (\<lambda>a b. priority b - priority a)"

abbreviation descending :: "'r prioritized list \<Rightarrow> bool" where
  "descending \<equiv> sorted_wrt (\<lambda>a b. priority b \<le> priority a)"

text \<open>The loop over \<open>this._modules.values()\<close> that fills \<open>routers\<close>.\<close>

definition collect_routers :: "'r app_module list \<Rightarrow> 'r prioritized list" where
  "collect_routers ms = concat (map (\<lambda>m. case routers m of None \<Rightarrow> [] | Some rs \<Rightarrow> rs) ms)"

text \<open>\<open>routers.sort((a, b) => b.priority - a.priority)\<close>\<close>

definition mount_order :: "'r app_module list \<Rightarrow> 'r prioritized list" where
  "mount_order ms = js_sort by_priority (collect_routers ms)"

text \<open>
  \<open>register\<close> of the sorting variant, on the list of what \<open>server.express.use\<close> has
  mounted so far (path and router).
\<close>

definition register_routes :: "'r app_module list \<Rightarrow> (string \<times> 'r) list \<Rightarrow> (string \<times> 'r) list" where
  "register_routes ms mounted = mounted @ map (\<lambda>r. (''/'', router r)) (mount_order ms)"

text \<open>
  \<open>register\<close> of the other variant mounts \<open>server.routers\<close> as the array has them.
\<close>

definition register_server_routers :: "'r list \<Rightarrow> (string \<times> 'r) list \<Rightarrow> (string \<times> 'r) list" where
  "register_server_routers rs mounted = mounted @ map (\<lambda>r. (''/'', r)) rs"

section \<open>The server lifecycle (src/servers/express.js)\<close>

text \<open>
  The class \<open>Express\<close>. Its later version, which adds web sockets, loads and unloads the
  middleware with the same two \<open>reduce\<close> loops, so one model serves both.
\<close>

text \<open>
  What a call of a middleware's \<open>register\<close> or \<open>unregister\<close> does, as the server
  sees it: it returns a promise that fulfils, it fails (it throws, or the promise it
  returns rejects), or it returns something that is not a promise.
\<close>

datatype outcome = Fulfils | Rejects error | NotPromise

text \<open>
  The middleware services are collaborators. Their behaviour is given per service name
  and server name; \<open>has_unregister\<close> is \<open>typeof obj.unregister === 'function'\<close>.
\<close>

record middleware_env =
  register_outcome :: "string \<Rightarrow> string \<Rightarrow> outcome"
  has_unregister :: "string \<Rightarrow> bool"
  unregister_outcome :: "string \<Rightarrow> string \<Rightarrow> outcome"

text \<open>
  What happens is recorded as a trace. An instance is known by a number: \<open>Resolved n i\<close>
  is \<open>this._app.get(n)\<close> returning instance \<open>i\<close>; \<open>RegisterCall n i s\<close> is the call
  \<open>register\<close> on instance \<open>i\<close> of service \<open>n\<close> with the server named \<open>s\<close>, and
  \<open>RegisterDone n i s\<close> is the fulfilment of the promise that call returned.
\<close>

datatype event =
    Resolved string nat
  | RegisterCall string nat string
  | RegisterDone string nat string
  | UnregisterCall string nat string
  | UnregisterDone string nat string

text \<open>
  The application, shared by its servers: the map registered as
  \<open>express.middleware\<close> (in insertion order), whether it is registered yet, and the
  number of instances the container has constructed. The container is taken to
  construct a new instance at every \<open>get\<close>: whatever sharing there is comes from the
  server's own map.
\<close>

record app_state =
  middleware_cache :: "(string \<times> nat) list"
  cache_registered :: bool
  next_instance :: nat
  trace :: "event list"

text \<open>The server object: \<open>this.name\<close>, whether \<open>this.server\<close> is set, \<open>this.listening\<close>.\<close>

record server_state =
  srv_name :: "string option"
  http_server :: bool
  listening :: bool

text \<open>
  The keys of \<open>servers.<name>\<close> that matter here. \<open>middleware\<close> is \<open>None\<close> when the
  entry is not an array. \<open>setup_error\<close> is the error, if any, that the set-up of Express
  and of the HTTP(S) server raises in \<open>init\<close> before the middleware is loaded;
  \<open>listen_fails\<close> says that binding the port fails.
\<close>

record server_config =
  enable :: "bool option"
  middleware :: "string list option"
  setup_error :: "error option"
  listen_fails :: bool

text \<open>
  The body of the \<open>reduce\<close> callback of \<open>init\<close> up to the call of \<open>register\<close>: the
  instance is taken from the map, or obtained from the container and stored.
\<close>

definition resolve_middleware :: "string \<Rightarrow> app_state \<Rightarrow> nat \<times> app_state" where
  "resolve_middleware cur a =
     (case map_of (middleware_cache a) cur of
        Some obj \<Rightarrow> (obj, a)
      | None \<Rightarrow>
          (next_instance a,
           a\<lparr> middleware_cache := middleware_cache a @ [(cur, next_instance a)],
              next_instance := Suc (next_instance a),
              trace := trace a @ [Resolved cur (next_instance a)] \<rparr>))"

text \<open>
  \<open>middlewareConfig.reduce(async (prev, cur) => { await prev; ... }, Promise.resolve())\<close>:
  every callback waits for the promise of the one before it, so the bodies run one
  after the other in list order, and when one fails the later ones fail at
  \<open>await prev\<close> without running. The promise a callback returns settles as the promise
  \<open>register\<close> returned does. The result is the error the chain rejects with, if any,
  and the application afterwards.
\<close>

fun init_loop :: "middleware_env \<Rightarrow> string \<Rightarrow> string list \<Rightarrow> app_state \<Rightarrow> error option \<times> app_state" where
  "init_loop env srv [] a = (None, a)"
| "init_loop env srv (cur # rest) a =
     (let obj = fst (resolve_middleware cur a);
          a1 = snd (resolve_middleware cur a);
          a2 = a1\<lparr> trace := trace a1 @ [RegisterCall cur obj srv] \<rparr>
      in case register_outcome env cur srv of
           Fulfils \<Rightarrow> init_loop env srv rest (a2\<lparr> trace := trace a2 @ [RegisterDone cur obj srv] \<rparr>)
         | Rejects e \<Rightarrow> (Some e, a2)
         | NotPromise \<Rightarrow> (Some (RegisterNotPromise cur), a2))"

definition init ::
  "middleware_env \<Rightarrow> (string \<Rightarrow> server_config) \<Rightarrow> string \<Rightarrow> server_state \<Rightarrow> app_state
     \<Rightarrow> error option \<times> server_state \<times> app_state" where
  "init env cfg nm srv a =
     (let srv1 = srv\<lparr> srv_name := Some nm \<rparr> in
      if enable (cfg nm) = Some False then (None, srv1, a)
      else case setup_error (cfg nm) of
             Some e \<Rightarrow> (Some e, srv1, a)
           | None \<Rightarrow>
               (let srv2 = srv1\<lparr> http_server := True, listening := False \<rparr> in
                case middleware (cfg nm) of
                  None \<Rightarrow> (None, srv2, a)
                | Some ms \<Rightarrow>
                    (let a1 = (if cache_registered a then a
                               else a\<lparr> middleware_cache := [], cache_registered := True \<rparr>)
                     in (fst (init_loop env nm ms a1), srv2, snd (init_loop env nm ms a1)))))"


text \<open>
  The \<open>reduce\<close> of \<open>stop\<close>: a name that is not in the map, or whose instance has no
  \<open>unregister\<close> function, is passed over.
\<close>

fun stop_loop :: "middleware_env \<Rightarrow> string \<Rightarrow> string list \<Rightarrow> app_state \<Rightarrow> error option \<times> app_state" where
  "stop_loop env srv [] a = (None, a)"
| "stop_loop env srv (cur # rest) a =
     (case map_of (middleware_cache a) cur of
        None \<Rightarrow> stop_loop env srv rest a
      | Some obj \<Rightarrow>
          if \<not> has_unregister env cur then stop_loop env srv rest a
          else (let a1 = a\<lparr> trace := trace a @ [UnregisterCall cur obj srv] \<rparr> in
                case unregister_outcome env cur srv of
                  Fulfils \<Rightarrow> stop_loop env srv rest (a1\<lparr> trace := trace a1 @ [UnregisterDone cur obj srv] \<rparr>)
                | Rejects e \<Rightarrow> (Some e, a1)
                | NotPromise \<Rightarrow> (Some (UnregisterNotPromise cur), a1)))"


definition new_server :: server_state where
  "new_server = \<lparr> srv_name = None, http_server = False, listening = False \<rparr>"

definition new_app :: app_state where
  "new_app = \<lparr> middleware_cache = [], cache_registered = False, next_instance = 0, trace = [] \<rparr>"

text \<open>
  A sequence of \<open>init\<close> calls on one application, each on a server object in any state
  and under any name; a failed \<open>init\<close> does not stop the later ones.
\<close>

fun run_inits ::
  "middleware_env \<Rightarrow> (string \<Rightarrow> server_config) \<Rightarrow> (string \<times> server_state) list \<Rightarrow> app_state \<Rightarrow> app_state" where
  "run_inits env cfg [] a = a"
| "run_inits env cfg ((nm, srv) # calls) a = run_inits env cfg calls (snd (snd (init env cfg nm srv a)))"

fun is_resolved :: "string \<Rightarrow> event \<Rightarrow> bool" where
  "is_resolved n (Resolved m i) = (m = n)"
| "is_resolved n e = False"




text \<open>
  What holds of the application between the calls of \<open>init\<close>: the map has one entry
  per name, its entries are the instances the container returned, in that order, and every
  \<open>register\<close> call was made on the instance the map holds.
\<close>

fun is_resolution :: "event \<Rightarrow> bool" where
  "is_resolution (Resolved n i) = True"
| "is_resolution e = False"

definition cache_inv :: "app_state \<Rightarrow> bool" where
  "cache_inv a =
     (distinct (map fst (middleware_cache a))
      \<and> filter is_resolution (trace a) = map (\<lambda>(n, i). Resolved n i) (middleware_cache a)
      \<and> (\<forall>n i s. RegisterCall n i s \<in> set (trace a) \<longrightarrow> (n, i) \<in> set (middleware_cache a)))"

definition app_inv :: "app_state \<Rightarrow> bool" where
  "app_inv a = (cache_inv a \<and> (cache_registered a \<or> middleware_cache a = []))"

text \<open>
  Calls made one after the other down a list: each call is followed by its completion
  before the next call is made, and the first call that does not complete is the last.
  \<open>registrations\<close> are such calls of \<open>register\<close> for a list of names;
  \<open>unregistrations\<close> are such calls of \<open>unregister\<close>, for the names of the list that
  are in the map and whose instance has an \<open>unregister\<close> function.
\<close>

definition sequential_calls ::
  "(string \<Rightarrow> bool) \<Rightarrow> (string \<Rightarrow> event) \<Rightarrow> (string \<Rightarrow> event) \<Rightarrow> string list \<Rightarrow> event list" where
  "sequential_calls ok call done ms =
     concat (map (\<lambda>m. [call m, done m]) (takeWhile ok ms))
     @ (case dropWhile ok ms of [] \<Rightarrow> [] | m # rest \<Rightarrow> [call m])"



section \<open>Example data\<close>

text \<open>Concrete collaborators and configurations, used to run the definitions.\<close>

definition blank_session :: session where
  "blank_session = \<lparr> token = [], payload = JUndefined, info = None, user = JUndefined, userId = JUndefined \<rparr>"

definition stored_session :: session where
  "stored_session = \<lparr> token = ''t1'', payload = JObj [(''cart'', JNum 3)], info = None,
                       user = JUndefined, userId = JNum 7 \<rparr>"

definition example_session_repo :: session_repo where
  "example_session_repo =
     \<lparr> getModel = blank_session,
       findByToken = (\<lambda>t. if t = ''t1'' then Inr [stored_session] else Inr []),
       repo_save = (\<lambda>s. Inr ()),
       repo_delete = (\<lambda>s. Inr ()),
       deleteExpired = None \<rparr>"

definition example_user :: jsval where
  "example_user = JObj [(''id'', JNum 7), (''name'', JStr ''ann'')]"

definition example_user_repo :: user_repo where
  "example_user_repo = \<lparr> user_find = (\<lambda>i. if i = JNum 7 then Inr [example_user] else Inr []) \<rparr>"

definition example_collab :: collaborators where
  "example_collab =
     \<lparr> app_get_model = (\<lambda>n. blank_session),
       app_get_session_repo = (\<lambda>n. example_session_repo),
       app_get_user_repo = (\<lambda>n. example_user_repo),
       getRandomString = (\<lambda>n opts. replicate n (CHR ''a'')),
       geoip_lookup = (\<lambda>a. JNull) \<rparr>"

definition example_config :: bridge_config where
  "example_config =
     \<lparr> project = ''shop'', cfg_model = None,
       session_repository = Some ''repositories.session'',
       user_repository = Some ''repositories.user'',
       ip_header = None, expire_timeout = Some 60 \<rparr>"

definition bare_config :: bridge_config where
  "bare_config =
     \<lparr> project = ''shop'', cfg_model = None, session_repository = None,
       user_repository = None, ip_header = None, expire_timeout = None \<rparr>"

definition example_request :: request where
  "example_request =
     \<lparr> headers = [''user-agent'' \<mapsto> '' curl/8 ''], req_ip = Some ''10.0.0.9'', cookies = None \<rparr>"

definition stale_session :: session where
  "stale_session = \<lparr> token = ''t9'', payload = JObj [], 
     info = Some \<lparr> ip = Some ''10.0.0.1'', forwarded_for = None, user_agent = Some ''old'', geoip = JNull \<rparr>,
     user = example_user, userId = JUndefined \<rparr>"

definition example_service :: session_service where
  "example_service =
     \<lparr> decodeJwt = (\<lambda>nm tok rq. if tok = ''good'' then Inr (Some stored_session)
                                  else Inl (Failure ''jwt malformed'')),
       svc_create = (\<lambda>nm u rq.
          case create (ExpressSession example_collab example_config nm) u (Some rq) of
            Inl e \<Rightarrow> Inl e | Inr s \<Rightarrow> Inr (Some s)),
       update = (\<lambda>nm s rq. (Inr (JBool (isValid s)), s)),
       svc_isValid = (\<lambda>nm. isValid),
       encodeJwt = (\<lambda>nm s. Inr (''jwt.'' @ token s)) \<rparr>"

definition unconfigured_service :: session_service where
  "unconfigured_service =
     example_service \<lparr> svc_create := (\<lambda>nm u rq.
        case create (ExpressSession example_collab bare_config nm) u (Some rq) of
          Inl e \<Rightarrow> Inl e | Inr s \<Rightarrow> Inr (Some s)) \<rparr>"

definition offline_service :: session_service where
  "offline_service = example_service \<lparr> update := (\<lambda>nm s rq. (Inl (Failure ''ECONNREFUSED''), s)) \<rparr>"

definition cookie_request :: request where
  "cookie_request =
     \<lparr> headers = Map.empty, req_ip = Some ''10.0.0.9'', cookies = Some [''sid_api_shop'' \<mapsto> ''bad''] \<rparr>"


definition example_modules :: "string app_module list" where
  "example_modules =
     [ \<lparr> routers = Some [\<lparr> priority = 5, router = ''pages'' \<rparr>] \<rparr>,
       \<lparr> routers = None \<rparr>,
       \<lparr> routers = Some [\<lparr> priority = 20, router = ''auth'' \<rparr>, \<lparr> priority = 5, router = ''files'' \<rparr>] \<rparr> ]"

text \<open>
  The middleware of this repository: all return promises, and only the session
  middleware has \<open>unregister\<close>.
\<close>

definition example_env :: middleware_env where
  "example_env =
     \<lparr> register_outcome = (\<lambda>n s. Fulfils),
       has_unregister = (\<lambda>n. n = ''express.session''),
       unregister_outcome = (\<lambda>n s. Fulfils) \<rparr>"

definition example_servers :: "string \<Rightarrow> server_config" where
  "example_servers nm =
     (if nm = ''api''
      then \<lparr> enable = None,
             middleware = Some [''express.requestParser'', ''express.session'', ''express.routes''],
             setup_error = None, listen_fails = False \<rparr>
      else if nm = ''admin''
      then \<lparr> enable = Some True, middleware = Some [''express.session'', ''express.routes''],
             setup_error = None, listen_fails = False \<rparr>
      else \<lparr> enable = Some False, middleware = Some [''express.session''],
             setup_error = None, listen_fails = False \<rparr>)"

definition two_servers :: app_state where
  "two_servers =
     run_inits example_env example_servers [(''api'', new_server), (''admin'', new_server)] new_app"




section \<open>Properties of the session bridge\<close>



text \<open>
  Claim C6. When the session repository returns no row for the token, \<open>find\<close> returns
  \<open>null\<close> (it does not throw), after the one lookup. When it returns a session whose
  \<open>userId\<close> is truthy and a user repository is configured, \<open>find\<close> looks the user up
  and attaches the first row, or \<open>null\<close> when the lookup returns no rows; it replaces
  the metadata snapshot by the one computed from the request when a request is supplied,
  and leaves it as it is otherwise.
\<close>

theorem find_session_contract:
  assumes "sessionRepo b = Some r"
  shows "(findByToken r tok = Inr [] \<longrightarrow> find_session b tok rq = (Inr None, [OpFindByToken tok]))
       \<and> (\<forall>s rest ur users.
            findByToken r tok = Inr (s # rest) \<and> truthy (userId s) \<and> userRepo b = Some ur
              \<and> user_find ur (userId s) = Inr users \<longrightarrow>
            fst (find_session b tok rq) =
              Inr (Some (case rq of
                           None \<Rightarrow> s\<lparr> user := first_or_null users \<rparr>
                         | Some q \<Rightarrow> s\<lparr> user := first_or_null users, info := Some (getInfo b (Some q)) \<rparr>)))
       \<and> first_or_null [] = JNull
       \<and> (\<forall>u us. truthy u \<longrightarrow> first_or_null (u # us) = u)"
  using assms
  by (auto simp: find_session_def refresh_info_def first_or_null_def split: option.splits)

theorem find_session_contract_witness:
  "find_session (ExpressSession example_collab example_config ''api'') ''nope'' (Some example_request)
     = (Inr None, [OpFindByToken ''nope''])
   \<and> fst (find_session (ExpressSession example_collab example_config ''api'') ''t1'' (Some example_request))
     = Inr (Some (stored_session\<lparr> user := example_user,
          info := Some \<lparr> ip = Some ''10.0.0.9'', forwarded_for = None,
                         user_agent = Some ''curl/8'', geoip = JNull \<rparr> \<rparr>))"
  using find_session_contract [of "ExpressSession example_collab example_config ''api''"
      example_session_repo "''nope''" "Some example_request"]
    find_session_contract [of "ExpressSession example_collab example_config ''api''"
      example_session_repo "''t1''" "Some example_request"]
  apply (simp add: ExpressSession_def example_config_def example_collab_def str_truthy_def)
  apply (simp add: example_session_repo_def example_user_repo_def stored_session_def first_or_null_def
      example_user_def getInfo_def example_request_def header_trim_def trim_def is_space_def str_truthy_def)
  done

text \<open>
  Claim C10, as amended. On a bridge without a session repository \<open>find\<close> returns
  \<open>null\<close>, and \<open>save\<close>, \<open>destroy\<close> and \<open>expire\<close> return normally without any
  storage operation. \<open>save\<close> still sets \<open>session.userId\<close> (to \<open>user.id\<close>, or to
  \<open>null\<close> without a user); it replaces the metadata snapshot only when a request is
  supplied. \<open>expire\<close> is also a no-op when the repository has no \<open>deleteExpired\<close>.
\<close>

theorem no_repository_noop:
  "(sessionRepo b = None \<longrightarrow>
        find_session b tok rq = (Inr None, [])
      \<and> save b s None =
          (Inr (), s\<lparr> userId := (if truthy (user s) then get_prop (user s) ''id'' else JNull) \<rparr>, [])
      \<and> (\<forall>q. save b s (Some q) =
          (Inr (), s\<lparr> info := Some (getInfo b (Some q)),
                       userId := (if truthy (user s) then get_prop (user s) ''id'' else JNull) \<rparr>, []))
      \<and> destroy b s = (Inr (), [])
      \<and> expire b = (Inr (), []))
   \<and> (\<forall>r. sessionRepo b = Some r \<and> deleteExpired r = None \<longrightarrow> expire b = (Inr (), []))"
  by (simp add: find_session_def save_def destroy_def expire_def refresh_info_def Let_def)

theorem no_repository_noop_witness:
  "find_session (ExpressSession example_collab bare_config ''api'') ''t1'' None = (Inr None, [])
   \<and> save (ExpressSession example_collab bare_config ''api'') stale_session None
        = (Inr (), stale_session\<lparr> userId := JNum 7 \<rparr>, [])
   \<and> destroy (ExpressSession example_collab bare_config ''api'') stale_session = (Inr (), [])
   \<and> expire (ExpressSession example_collab bare_config ''api'') = (Inr (), [])
   \<and> expire (ExpressSession example_collab example_config ''api'') = (Inr (), [])"
  using no_repository_noop [of "ExpressSession example_collab bare_config ''api''" "''t1''" None stale_session]
    no_repository_noop [of "ExpressSession example_collab example_config ''api''" "''t1''" None stale_session]
  by (simp add: ExpressSession_def bare_config_def example_config_def example_collab_def str_truthy_def
      example_session_repo_def stale_session_def example_user_def)

text \<open>
  Claim C10 as stated says that \<open>save\<close> updates the metadata snapshot. Called without a
  request (the parameter is optional), \<open>save\<close> leaves the snapshot as it was: the
  assignment is guarded by \<open>if (req)\<close>.
\<close>

theorem save_without_request_counterexample:
  "sessionRepo (ExpressSession example_collab bare_config ''api'') = None
   \<and> info (fst (snd (save (ExpressSession example_collab bare_config ''api'') stale_session None)))
       = info stale_session
   \<and> info (fst (snd (save (ExpressSession example_collab bare_config ''api'') stale_session None)))
       \<noteq> Some (getInfo (ExpressSession example_collab bare_config ''api'') None)"
  by (simp add: ExpressSession_def bare_config_def str_truthy_def save_def refresh_info_def
      stale_session_def getInfo_def)

section \<open>Properties of the session middleware\<close>

lemma or_null_defined: "or_null v \<noteq> JUndefined"
  by (cases v) (simp_all add: or_null_def)

text \<open>
  Claim C2, as amended. In both variants the handler has set \<open>req.session\<close> and
  \<open>req.user\<close> (and the same values on \<open>res.locals\<close>) when it calls \<open>next()\<close>, and
  neither is ever \<open>undefined\<close>. When token decoding or session creation fails, the user
  is \<open>null\<close> in both variants; the session field is the empty object in variant 2 and
  \<open>null\<close> in variant 1.
\<close>

theorem session_fields_initialized:
  "req_session (handler_v1 svc b nm rq) \<noteq> JUndefined
   \<and> req_user (handler_v1 svc b nm rq) \<noteq> JUndefined
   \<and> locals_session (handler_v1 svc b nm rq) = req_session (handler_v1 svc b nm rq)
   \<and> locals_user (handler_v1 svc b nm rq) = req_user (handler_v1 svc b nm rq)
   \<and> next_called (handler_v1 svc b nm rq)
   \<and> (\<exists>obj. req_session (handler_v2 svc b nm rq) = JObj obj)
   \<and> req_user (handler_v2 svc b nm rq) \<noteq> JUndefined
   \<and> locals_session (handler_v2 svc b nm rq) = req_session (handler_v2 svc b nm rq)
   \<and> locals_user (handler_v2 svc b nm rq) = req_user (handler_v2 svc b nm rq)
   \<and> next_called (handler_v2 svc b nm rq)
   \<and> (\<forall>e. resolve_session svc b nm rq = Inl e \<longrightarrow>
          req_session (handler_v1 svc b nm rq) = JNull
        \<and> req_user (handler_v1 svc b nm rq) = JNull
        \<and> req_session (handler_v2 svc b nm rq) = JObj []
        \<and> req_user (handler_v2 svc b nm rq) = JNull)"
  by (auto simp: handler_v1_def handler_v2_def or_null_defined split: sum.splits option.splits)

theorem session_fields_initialized_witness:
  "resolve_session example_service (ExpressSession example_collab example_config ''api'') ''api'' cookie_request
     = Inl (Failure ''jwt malformed'')
   \<and> req_session (handler_v2 example_service (ExpressSession example_collab example_config ''api'') ''api'' cookie_request) = JObj []
   \<and> req_user (handler_v2 example_service (ExpressSession example_collab example_config ''api'') ''api'' cookie_request) = JNull
   \<and> req_session (handler_v1 example_service (ExpressSession example_collab example_config ''api'') ''api'' cookie_request) = JNull"
  using session_fields_initialized [of example_service "ExpressSession example_collab example_config ''api''"
      "''api''" cookie_request]
  by (simp add: resolve_session_def cookie_token_def tokenVar_def ExpressSession_def example_config_def
      cookie_request_def example_service_def str_truthy_def)

text \<open>
  Claim C2 as stated has the session field default to an empty payload object. In
  variant 1 a bridge without model and repository makes \<open>create\<close> throw, and the
  handler leaves \<open>req.session\<close> at \<open>null\<close>, the value it assigned first.
\<close>

theorem null_session_counterexample:
  "resolve_session unconfigured_service (ExpressSession example_collab bare_config ''api'') ''api'' example_request
     = Inl NoModel
   \<and> req_session (handler_v1 unconfigured_service (ExpressSession example_collab bare_config ''api'') ''api'' example_request)
     = JNull
   \<and> req_session (handler_v1 unconfigured_service (ExpressSession example_collab bare_config ''api'') ''api'' example_request)
     \<noteq> JObj []"
  by (simp add: handler_v1_def resolve_session_def cookie_token_def example_request_def
      unconfigured_service_def example_service_def create_def ExpressSession_def bare_config_def
      str_truthy_def)



text \<open>
  Claim C4, as amended. In variant 1, when \<open>update\<close> completes, the session service
  judges the session valid, and the token is encoded, the hook sets exactly one cookie:
  its name is \<open>sid_<server>_<project>\<close> (the bridge is constructed for the server's
  name), its value is the encoded token, \<open>maxAge\<close> is 365 * 24 * 60 * 60 * 1000,
  \<open>path\<close> is \<open>/\<close> and \<open>httpOnly\<close> is false. When \<open>update\<close> or the encoding
  fails, the hook sets no cookie. Variant 2 sets the same cookie when \<open>update\<close>
  resolves to a truthy value and the token is encoded.
\<close>

theorem valid_session_cookie:
  "(\<forall>s0 v t. sv = Some s0
        \<and> fst (update svc nm (s0\<lparr> user := u \<rparr>) rq) = Inr v
        \<and> svc_isValid svc nm (snd (update svc nm (s0\<lparr> user := u \<rparr>) rq))
        \<and> encodeJwt svc nm (snd (update svc nm (s0\<lparr> user := u \<rparr>) rq)) = Inr t \<longrightarrow>
        cookies_set (finalize_v1 svc b nm sv u rq args) =
          [\<lparr> c_name = ''sid_'' @ server b @ ''_'' @ project (config b), c_value = t,
             maxAge = 31536000000, path = ''/'', httpOnly = False \<rparr>])
   \<and> (\<forall>s0 e. sv = Some s0 \<and> fst (update svc nm (s0\<lparr> user := u \<rparr>) rq) = Inl e \<longrightarrow>
        cookies_set (finalize_v1 svc b nm sv u rq args) = [])
   \<and> (\<forall>s0 e. sv = Some s0 \<and> encodeJwt svc nm (snd (update svc nm (s0\<lparr> user := u \<rparr>) rq)) = Inl e \<longrightarrow>
        cookies_set (finalize_v1 svc b nm sv u rq args) = [])
   \<and> (\<forall>s0 v t. sv = Some s0
        \<and> fst (update svc nm (s0\<lparr> payload := p, user := u \<rparr>) rq) = Inr v \<and> truthy v
        \<and> encodeJwt svc nm (snd (update svc nm (s0\<lparr> payload := p, user := u \<rparr>) rq)) = Inr t \<longrightarrow>
        cookies_set (finalize_v2 svc b nm sv p u rq args) =
          [\<lparr> c_name = ''sid_'' @ server b @ ''_'' @ project (config b), c_value = t,
             maxAge = 31536000000, path = ''/'', httpOnly = False \<rparr>])
   \<and> server (ExpressSession c cfg nm) = nm \<and> project (config (ExpressSession c cfg nm)) = project cfg"
  by (auto simp: finalize_v1_def finalize_v2_def session_cookie_def tokenVar_def ExpressSession_def Let_def
      split: sum.splits option.splits)

theorem valid_session_cookie_witness:
  "cookies_set (finalize_v1 example_service (ExpressSession example_collab example_config ''api'') ''api''
        (Some stored_session) JNull example_request []) =
     [\<lparr> c_name = ''sid_api_shop'', c_value = ''jwt.t1'', maxAge = 31536000000, path = ''/'',
        httpOnly = False \<rparr>]"
  using valid_session_cookie [of "Some stored_session" example_service "''api''" JNull example_request
      "ExpressSession example_collab example_config ''api''" "[]"]
  by (simp add: example_service_def stored_session_def isValid_def ExpressSession_def example_config_def)

text \<open>
  Claim C4 as stated promises the cookie for every valid session. When \<open>update\<close>
  rejects (the repository is unreachable), the \<open>catch\<close> block logs the error and the
  hook sets no cookie, although the session has a payload and is valid.
\<close>

theorem failed_update_counterexample:
  "payload_nonempty (payload stored_session)
   \<and> svc_isValid offline_service ''api'' (stored_session\<lparr> user := JNull \<rparr>)
   \<and> tokenVar (ExpressSession example_collab example_config ''api'') = ''sid_api_shop''
   \<and> fst (update offline_service ''api'' (stored_session\<lparr> user := JNull \<rparr>) example_request)
        = Inl (Failure ''ECONNREFUSED'')
   \<and> cookies_set (finalize_v1 offline_service (ExpressSession example_collab example_config ''api'') ''api''
        (Some stored_session) JNull example_request []) = []"
  by (simp add: finalize_v1_def offline_service_def example_service_def stored_session_def isValid_def
      tokenVar_def ExpressSession_def example_config_def)

text \<open>
  Claim C7. Whatever the session service's calls do, the handler calls \<open>next()\<close> and
  the replaced \<open>res.end\<close> passes its arguments to the original \<open>res.end\<close>, once. An
  error of \<open>decodeJwt\<close> or of \<open>create\<close> is the one thing the handler logs; an error
  of \<open>update\<close> or of \<open>encodeJwt\<close> is the one thing the hook logs. Both functions
  return a result in every case: no error leaves them.
\<close>

theorem session_errors_caught:
  "next_called (handler_v1 svc b nm rq) \<and> next_called (handler_v2 svc b nm rq)
   \<and> logged (handler_v1 svc b nm rq) = (case resolve_session svc b nm rq of Inl e \<Rightarrow> [e] | Inr sv \<Rightarrow> [])
   \<and> logged (handler_v2 svc b nm rq) = (case resolve_session svc b nm rq of Inl e \<Rightarrow> [e] | Inr sv \<Rightarrow> [])
   \<and> (\<forall>e. str_truthy (cookie_token b rq) \<and> decodeJwt svc nm (the (cookie_token b rq)) rq = Inl e \<longrightarrow>
          resolve_session svc b nm rq = Inl e)
   \<and> (\<forall>e. svc_create svc nm JNull rq = Inl e
          \<and> (\<not> str_truthy (cookie_token b rq) \<or> decodeJwt svc nm (the (cookie_token b rq)) rq = Inr None) \<longrightarrow>
          resolve_session svc b nm rq = Inl e)
   \<and> origEnd_calls (finalize_v1 svc b nm sv u rq args) = [args]
   \<and> origEnd_calls (finalize_v2 svc b nm sv p u rq args) = [args]
   \<and> (\<forall>s e. sv = Some s \<and> fst (update svc nm (s\<lparr> user := u \<rparr>) rq) = Inl e \<longrightarrow>
          hook_logged (finalize_v1 svc b nm sv u rq args) = [e])
   \<and> (\<forall>s e. sv = Some s \<and> fst (update svc nm (s\<lparr> payload := p, user := u \<rparr>) rq) = Inl e \<longrightarrow>
          hook_logged (finalize_v2 svc b nm sv p u rq args) = [e])
   \<and> (\<forall>s v e. sv = Some s \<and> fst (update svc nm (s\<lparr> user := u \<rparr>) rq) = Inr v
          \<and> svc_isValid svc nm (snd (update svc nm (s\<lparr> user := u \<rparr>) rq)) \<and> tokenVar b \<noteq> []
          \<and> encodeJwt svc nm (snd (update svc nm (s\<lparr> user := u \<rparr>) rq)) = Inl e \<longrightarrow>
          hook_logged (finalize_v1 svc b nm sv u rq args) = [e])
   \<and> (\<forall>s v e. sv = Some s \<and> fst (update svc nm (s\<lparr> payload := p, user := u \<rparr>) rq) = Inr v
          \<and> truthy v \<and> tokenVar b \<noteq> []
          \<and> encodeJwt svc nm (snd (update svc nm (s\<lparr> payload := p, user := u \<rparr>) rq)) = Inl e \<longrightarrow>
          hook_logged (finalize_v2 svc b nm sv p u rq args) = [e])"
  by (auto simp: handler_v1_def handler_v2_def resolve_session_def finalize_v1_def finalize_v2_def Let_def
      split: sum.splits option.splits)

theorem session_errors_caught_witness:
  "logged (handler_v1 example_service (ExpressSession example_collab example_config ''api'') ''api'' cookie_request)
     = [Failure ''jwt malformed'']
   \<and> logged (handler_v2 unconfigured_service (ExpressSession example_collab bare_config ''api'') ''api'' example_request)
     = [NoModel]
   \<and> hook_logged (finalize_v1 offline_service (ExpressSession example_collab example_config ''api'') ''api''
        (Some stored_session) JNull example_request [JStr ''bye'']) = [Failure ''ECONNREFUSED'']
   \<and> origEnd_calls (finalize_v1 offline_service (ExpressSession example_collab example_config ''api'') ''api''
        (Some stored_session) JNull example_request [JStr ''bye'']) = [[JStr ''bye'']]"
  using session_errors_caught [of example_service "ExpressSession example_collab example_config ''api''"
      "''api''" cookie_request "Some stored_session" JNull "[JStr ''bye'']" JNull]
    session_errors_caught [of unconfigured_service "ExpressSession example_collab bare_config ''api''"
      "''api''" example_request "Some stored_session" JNull "[JStr ''bye'']" JNull]
    session_errors_caught [of offline_service "ExpressSession example_collab example_config ''api''"
      "''api''" example_request "Some stored_session" JNull "[JStr ''bye'']" JNull]
  by (simp add: resolve_session_def cookie_token_def tokenVar_def ExpressSession_def example_config_def
      bare_config_def cookie_request_def example_request_def example_service_def unconfigured_service_def
      offline_service_def str_truthy_def create_def)

section \<open>Properties of the routes middleware\<close>

lemma mset_insert_sorted: "mset (insert_sorted cmp x ys) = add_mset x (mset ys)"
  by (induction ys) auto

lemma set_insert_sorted: "set (insert_sorted cmp x ys) = insert x (set ys)"
  by (induction ys) auto

lemma descending_insert_sorted:
  "descending ys \<Longrightarrow> descending (insert_sorted by_priority x ys)"
  by (induction ys) (auto simp: set_insert_sorted)

lemma filter_insert_sorted:
  "descending ys \<Longrightarrow>
   filter (\<lambda>r. priority r = k) (insert_sorted by_priority x ys) =
   filter (\<lambda>r. priority r = k) ys @ (if priority x = k then [x] else [])"
proof (induction ys)
  case Nil
  then show ?case by simp
next
  case (Cons y ys)
  show ?case
  proof (cases "priority y < priority x")
    case True
    have "\<forall>z \<in> set (y # ys). priority z < priority x"
      using Cons.prems True by auto
    then have "priority x = k \<Longrightarrow> filter (\<lambda>r. priority r = k) (y # ys) = []"
      by (auto simp: filter_empty_conv)
    with True show ?thesis by auto
  next
    case False
    with Cons show ?thesis by auto
  qed
qed

lemma foldl_insert_sorted:
  "descending acc \<Longrightarrow>
     descending (foldl (\<lambda>a x. insert_sorted by_priority x a) acc xs)
   \<and> mset (foldl (\<lambda>a x. insert_sorted by_priority x a) acc xs) = mset acc + mset xs
   \<and> filter (\<lambda>r. priority r = k) (foldl (\<lambda>a x. insert_sorted by_priority x a) acc xs) =
       filter (\<lambda>r. priority r = k) acc @ filter (\<lambda>r. priority r = k) xs"
proof (induction xs arbitrary: acc)
  case Nil
  then show ?case by simp
next
  case (Cons x xs)
  from Cons.prems have d: "descending (insert_sorted by_priority x acc)"
    by (rule descending_insert_sorted)
  from Cons.IH [OF d] show ?case
    by (simp add: mset_insert_sorted filter_insert_sorted [OF Cons.prems])
qed

text \<open>
  Claim C8. The sorting variant of the routes middleware mounts the routers that the
  modules contribute, all at the path \<open>/\<close> and after what is mounted already, in
  descending order of priority: the mounted list is a rearrangement of the collected
  list, and for every priority the routers of that priority are mounted in the order in
  which they were collected.
\<close>

theorem routers_mounted_by_priority:
  "register_routes ms mounted = mounted @ map (\<lambda>r. (''/'', router r)) (mount_order ms)
   \<and> sorted_wrt (\<lambda>a b. priority b \<le> priority a) (mount_order ms)
   \<and> mset (mount_order ms) = mset (collect_routers ms)
   \<and> (\<forall>k. filter (\<lambda>r. priority r = k) (mount_order ms) = filter (\<lambda>r. priority r = k) (collect_routers ms))"
  using foldl_insert_sorted [of "[]" "collect_routers ms"]
  by (simp add: register_routes_def mount_order_def js_sort_def)

theorem routers_mounted_by_priority_witness:
  "map priority (collect_routers example_modules) = [5, 20, 5]
   \<and> map router (collect_routers example_modules) = [''pages'', ''auth'', ''files'']
   \<and> map priority (mount_order example_modules) = [20, 5, 5]
   \<and> map router (mount_order example_modules) = [''auth'', ''pages'', ''files'']
   \<and> register_routes example_modules [] = [(''/'', ''auth''), (''/'', ''pages''), (''/'', ''files'')]"
  using routers_mounted_by_priority [of example_modules "[]"]
  by (simp add: mount_order_def js_sort_def collect_routers_def example_modules_def register_routes_def)

text \<open>
  The other variant of the middleware does not look at priorities: it mounts
  \<open>server.routers\<close> in the order of that array, which is filled outside this repository.
\<close>

lemma server_routers_mounted_in_array_order:
  "register_server_routers rs mounted = mounted @ map (\<lambda>r. (''/'', r)) rs"
  by (simp add: register_server_routers_def)

section \<open>Properties of the server lifecycle\<close>

lemma cache_inv_new_app: "cache_inv new_app"
  by (simp add: cache_inv_def new_app_def)

lemma resolve_middleware_cached:
  "(cur, fst (resolve_middleware cur a)) \<in> set (middleware_cache (snd (resolve_middleware cur a)))"
  by (auto simp: resolve_middleware_def split: option.splits dest: map_of_SomeD)

lemma resolve_middleware_inv:
  assumes "cache_inv a"
  shows "cache_inv (snd (resolve_middleware cur a))"
proof (cases "map_of (middleware_cache a) cur")
  case None
  then have "cur \<notin> fst ` set (middleware_cache a)"
    by (simp add: map_of_eq_None_iff)
  with assms None show ?thesis
    by (auto simp: cache_inv_def resolve_middleware_def)
next
  case (Some i)
  with assms show ?thesis by (simp add: resolve_middleware_def)
qed

lemma cache_inv_register_call:
  assumes "cache_inv a" and "(cur, obj) \<in> set (middleware_cache a)"
  shows "cache_inv (a\<lparr> trace := trace a @ [RegisterCall cur obj srv] \<rparr>)"
  using assms unfolding cache_inv_def by auto

lemma cache_inv_register_done:
  assumes "cache_inv a"
  shows "cache_inv (a\<lparr> trace := trace a @ [RegisterDone cur obj srv] \<rparr>)"
  using assms unfolding cache_inv_def by auto

lemma init_loop_inv: "cache_inv a \<Longrightarrow> cache_inv (snd (init_loop env srv ms a))"
proof (induction ms arbitrary: a)
  case Nil
  then show ?case by simp
next
  case (Cons cur rest)
  let ?a1 = "snd (resolve_middleware cur a)"
  let ?obj = "fst (resolve_middleware cur a)"
  let ?a2 = "?a1\<lparr> trace := trace ?a1 @ [RegisterCall cur ?obj srv] \<rparr>"
  have "cache_inv ?a1" using Cons.prems by (rule resolve_middleware_inv)
  then have a2: "cache_inv ?a2"
    by (rule cache_inv_register_call) (rule resolve_middleware_cached)
  then have "cache_inv (?a2\<lparr> trace := trace ?a2 @ [RegisterDone cur ?obj srv] \<rparr>)"
    by (rule cache_inv_register_done)
  then have "cache_inv (snd (init_loop env srv rest (?a2\<lparr> trace := trace ?a2 @ [RegisterDone cur ?obj srv] \<rparr>)))"
    by (rule Cons.IH)
  with a2 show ?case
    by (simp add: Let_def split: outcome.splits)
qed

lemma cache_inv_fresh_map:
  assumes "cache_inv a" and "middleware_cache a = []"
  shows "cache_inv (a\<lparr> middleware_cache := [], cache_registered := True \<rparr>)"
  using assms unfolding cache_inv_def by simp

lemma init_loop_registered:
  "cache_registered (snd (init_loop env srv ms a)) = cache_registered a"
  by (induction ms arbitrary: a)
     (auto simp: Let_def resolve_middleware_def split: outcome.splits option.splits)

lemma init_inv:
  assumes "app_inv a"
  shows "app_inv (snd (snd (init env cfg nm srv a)))"
proof (cases "cache_registered a")
  case True
  with assms show ?thesis
    by (auto simp: app_inv_def init_def Let_def init_loop_inv init_loop_registered split: option.splits)
next
  case False
  with assms have e: "middleware_cache a = []" and c: "cache_inv a"
    by (simp_all add: app_inv_def)
  from c e have "cache_inv (a\<lparr> middleware_cache := [], cache_registered := True \<rparr>)"
    by (rule cache_inv_fresh_map)
  then have "cache_inv (snd (init_loop env nm ms (a\<lparr> middleware_cache := [], cache_registered := True \<rparr>)))" for ms
    by (rule init_loop_inv)
  with assms False show ?thesis
    by (auto simp: app_inv_def init_def Let_def init_loop_registered split: option.splits)
qed

lemma run_inits_inv: "app_inv a \<Longrightarrow> app_inv (run_inits env cfg calls a)"
  by (induction calls arbitrary: a) (auto simp: init_inv)

lemma app_inv_new_app: "app_inv new_app"
  by (simp add: app_inv_def cache_inv_new_app) (simp add: new_app_def)

lemma filter_key_le_one:
  "distinct (map fst xs) \<Longrightarrow> length (filter (\<lambda>p. fst p = n) xs) \<le> Suc 0"
proof (induction xs)
  case Nil
  then show ?case by simp
next
  case (Cons p xs)
  show ?case
  proof (cases "fst p = n")
    case True
    with Cons.prems have "n \<notin> fst ` set xs" by simp
    then have "filter (\<lambda>p. fst p = n) xs = []"
      by (auto simp: filter_empty_conv intro: rev_image_eqI)
    with True show ?thesis by simp
  next
    case False
    with Cons show ?thesis by simp
  qed
qed

lemma is_resolved_filter:
  "filter (is_resolved n) tr = filter (is_resolved n) (filter is_resolution tr)"
proof -
  have "is_resolved n e \<Longrightarrow> is_resolution e" for e by (cases e) simp_all
  then show ?thesis by (induction tr) auto
qed

lemma filter_resolved_map:
  "filter (is_resolved n) (map (\<lambda>(n, i). Resolved n i) xs) =
   map (\<lambda>(n, i). Resolved n i) (filter (\<lambda>p. fst p = n) xs)"
  by (induction xs) auto

lemma resolved_once:
  assumes "cache_inv a"
  shows "length (filter (is_resolved n) (trace a)) \<le> Suc 0"
proof -
  have "filter (is_resolved n) (trace a) =
        filter (is_resolved n) (map (\<lambda>(n, i). Resolved n i) (middleware_cache a))"
    using assms is_resolved_filter [of n "trace a"] by (simp add: cache_inv_def)
  also have "\<dots> = map (\<lambda>(n, i). Resolved n i) (filter (\<lambda>p. fst p = n) (middleware_cache a))"
    by (rule filter_resolved_map)
  finally show ?thesis
    using assms filter_key_le_one [of "middleware_cache a" n] by (simp add: cache_inv_def)
qed

text \<open>
  Claim C9. Take any sequence of \<open>init\<close> calls on one application, for any servers,
  starting from an application on which none has run. Every \<open>register\<close> call for a
  middleware name is made on the instance the shared map holds under that name, which
  is the instance the container returned for it; so any two \<open>register\<close> calls for one
  name, from the same or from different servers, are made on the same instance. The
  container is asked for a name at most once.
\<close>

theorem middleware_singleton:
  assumes "a = run_inits env cfg calls new_app"
  shows "(\<forall>n i s. RegisterCall n i s \<in> set (trace a) \<longrightarrow>
            map_of (middleware_cache a) n = Some i \<and> Resolved n i \<in> set (trace a))
       \<and> (\<forall>n i s j t. RegisterCall n i s \<in> set (trace a) \<and> RegisterCall n j t \<in> set (trace a) \<longrightarrow> i = j)
       \<and> (\<forall>n. length (filter (is_resolved n) (trace a)) \<le> 1)"
proof -
  have inv: "cache_inv a"
    using run_inits_inv [OF app_inv_new_app, of env cfg calls] assms by (simp add: app_inv_def)
  have cached: "map_of (middleware_cache a) n = Some i" if "RegisterCall n i s \<in> set (trace a)" for n i s
    using inv that by (auto simp: cache_inv_def)
  have resolved: "Resolved n i \<in> set (trace a)" if "RegisterCall n i s \<in> set (trace a)" for n i s
  proof -
    from inv that have "(n, i) \<in> set (middleware_cache a)" by (auto simp: cache_inv_def)
    then have "Resolved n i \<in> set (map (\<lambda>(n, i). Resolved n i) (middleware_cache a))" by force
    with inv have "Resolved n i \<in> set (filter is_resolution (trace a))" by (simp add: cache_inv_def)
    then show ?thesis by simp
  qed
  have same: "i = j" if "RegisterCall n i s \<in> set (trace a)" "RegisterCall n j t \<in> set (trace a)" for n i s j t
    using cached [OF that(1)] cached [OF that(2)] by simp
  from cached resolved same resolved_once [OF inv] show ?thesis by auto
qed

lemma two_servers_trace:
  "trace two_servers =
     [Resolved ''express.requestParser'' 0,
      RegisterCall ''express.requestParser'' 0 ''api'',
      RegisterDone ''express.requestParser'' 0 ''api'',
      Resolved ''express.session'' 1,
      RegisterCall ''express.session'' 1 ''api'',
      RegisterDone ''express.session'' 1 ''api'',
      Resolved ''express.routes'' 2,
      RegisterCall ''express.routes'' 2 ''api'',
      RegisterDone ''express.routes'' 2 ''api'',
      RegisterCall ''express.session'' 1 ''admin'',
      RegisterDone ''express.session'' 1 ''admin'',
      RegisterCall ''express.routes'' 2 ''admin'',
      RegisterDone ''express.routes'' 2 ''admin'']"
  by (simp add: two_servers_def init_def example_servers_def example_env_def new_app_def new_server_def
      resolve_middleware_def Let_def cong: let_weak_cong)

theorem middleware_singleton_witness:
  "RegisterCall ''express.session'' 1 ''api'' \<in> set (trace two_servers)
   \<and> RegisterCall ''express.session'' 1 ''admin'' \<in> set (trace two_servers)
   \<and> map_of (middleware_cache two_servers) ''express.session'' = Some 1
   \<and> Resolved ''express.session'' 1 \<in> set (trace two_servers)
   \<and> length (filter (is_resolved ''express.session'') (trace two_servers)) = 1"
  using middleware_singleton [of two_servers example_env example_servers
      "[(''api'', new_server), (''admin'', new_server)]"]
  by (simp add: two_servers_trace)
     (simp add: two_servers_def init_def example_servers_def example_env_def new_app_def new_server_def
      resolve_middleware_def Let_def cong: let_weak_cong)

subsection \<open>The order of registration\<close>

lemma sequential_calls_Nil [simp]: "sequential_calls ok call done [] = []"
  by (simp add: sequential_calls_def)











lemma stop_loop_cache:
  "middleware_cache (snd (stop_loop env nm ms a)) = middleware_cache a"
  by (induction ms arbitrary: a) (auto simp: Let_def split: option.splits outcome.splits)









end
